theory Spec2Isabelle
  imports Complex_Main
begin

section \<open>The authentication helper of the Interactive Brokers client\<close>

text \<open>
  A shallow embedding of \<^verbatim>\<open>src/ibc/utils/auth.py\<close>, the class
  \<^verbatim>\<open>InteractiveBrokersAuthentication\<close>. The class shells out to operating-system
  utilities, opens a browser, prints, and forwards requests to a session object. All of
  these effects are recorded, in order, in a trace of events; what the outside world
  answers is a parameter of the model (the record \<open>env\<close>), and each answer may depend on
  everything that happened before (the trace so far).

  Python strings are modelled as \<open>string\<close>; code points above 255 are outside the model.
  A leading underscore of a Python name is dropped (\<open>_startup_gateway\<close> is
  \<open>startup_gateway\<close>), since an Isabelle name starts with a letter.
\<close>

subsection \<open>Values\<close>

text \<open>
  An exception is either an instance of \<^verbatim>\<open>Exception\<close> (which \<^verbatim>\<open>except Exception\<close>
  catches) or an instance of \<^verbatim>\<open>BaseException\<close> only, such as
  \<^verbatim>\<open>KeyboardInterrupt\<close> or \<^verbatim>\<open>SystemExit\<close>. The string is the class name.
\<close>

datatype exn = Exception string | BaseException string

fun is_Exception :: "exn \<Rightarrow> bool" where
  "is_Exception (Exception _) = True"
| "is_Exception (BaseException _) = False"

abbreviation IndexError :: exn where "IndexError \<equiv> Exception ''IndexError''"
abbreviation KeyError :: exn where "KeyError \<equiv> Exception ''KeyError''"
abbreviation TypeError :: exn where "TypeError \<equiv> Exception ''TypeError''"

text \<open>
  The values \<^verbatim>\<open>server_process_id\<close> and the \<^verbatim>\<open>pid\<close> argument take: \<^verbatim>\<open>None\<close>
  (the initial value and the default argument), an integer (the \<^verbatim>\<open>pid\<close> of
  \<^verbatim>\<open>subprocess.Popen\<close>) or a string (a line of \<^verbatim>\<open>pgrep\<close>, a cell of the
  \<^verbatim>\<open>tasklist\<close> table).
\<close>

datatype pyval = PNone | PInt int | PStr string

text \<open>JSON values, as a session returns them and as a payload carries them. A dictionary
  is an association list; a float is the rational it denotes.\<close>

datatype json =
    JNull
  | JBool bool
  | JInt int
  | JFloat rat
  | JStr string
  | JList "json list"
  | JDict "(string \<times> json) list"

record request =
  http_method :: string
  endpoint :: string
  json_payload :: "json option"

text \<open>The keyword arguments of \<^verbatim>\<open>subprocess.Popen\<close>; a key that the dictionary does
  not hold is \<open>None\<close>.\<close>

record popen_kwargs =
  cwd :: string
  start_new_session :: bool
  stdin :: int
  stdout :: int
  stderr :: int
  args :: "string list option"
  creationflags :: "int option"

definition DEVNULL :: int where
  "DEVNULL = - 3"

definition CREATE_NEW_CONSOLE :: int where
  "CREATE_NEW_CONSOLE = 16"

subsection \<open>Effects\<close>

datatype event =
    Run "string list"
  | Popen popen_kwargs
  | WebbrowserOpen string
  | Print string
  | MakeRequest request

text \<open>The raw standard output of a command, before it is decoded.\<close>

type_synonym bytes = "char list"

text \<open>
  The outside world. Each call of the standard library either returns or raises.
  \<^item> \<open>subprocess_run tr command\<close> is the standard output captured by
    \<^verbatim>\<open>subprocess.run(args=command, capture_output=True)\<close>; the call raises, for
    instance, \<^verbatim>\<open>FileNotFoundError\<close> when the executable is not found and
    \<^verbatim>\<open>ValueError\<close> when an argument holds a NUL character.
  \<^item> \<open>decode\<close> is \<^verbatim>\<open>bytes.decode()\<close>, which raises \<^verbatim>\<open>UnicodeDecodeError\<close> on
    bytes that are not UTF-8.
  \<^item> \<open>subprocess_Popen tr kwargs\<close> is the process id of the process that
    \<^verbatim>\<open>subprocess.Popen(**kwargs)\<close> launches; the call raises, for instance,
    \<^verbatim>\<open>FileNotFoundError\<close> when the working directory or the executable is missing.
  \<^item> \<open>csv_reader\<close> is the parser of \<^verbatim>\<open>csv.reader\<close> on a list of lines (rows of
    cells, or \<^verbatim>\<open>csv.Error\<close>).
  \<^item> \<open>make_request session tr request\<close> is what the session collaborator does with a
    request: it returns a JSON value or raises.
  An event of the trace records that the call was made, whether it returned or raised.
\<close>

record 's env =
  os_name :: string
  subprocess_run :: "event list \<Rightarrow> string list \<Rightarrow> exn + bytes"
  decode :: "bytes \<Rightarrow> exn + string"
  subprocess_Popen :: "event list \<Rightarrow> popen_kwargs \<Rightarrow> exn + int"
  csv_reader :: "string list \<Rightarrow> exn + string list list"
  make_request :: "'s \<Rightarrow> event list \<Rightarrow> request \<Rightarrow> exn + json"

text \<open>\<^verbatim>\<open>subprocess.run(args=command, capture_output=True).stdout.decode()\<close>.\<close>

definition run_and_decode :: "'s env \<Rightarrow> event list \<Rightarrow> string list \<Rightarrow> exn + string" where
  "run_and_decode env tr command =
     (case subprocess_run env tr command of
        Inl e \<Rightarrow> Inl e
      | Inr out \<Rightarrow> decode env out)"

subsection \<open>The object\<close>

record ('c, 's) auth =
  client :: 'c
  session :: 's
  authenticated :: bool
  server_process_id :: pyval
  is_windows :: bool

definition init :: "'s env \<Rightarrow> 'c \<Rightarrow> 's \<Rightarrow> ('c, 's) auth" where
  "init env ib_client ib_session =
     \<lparr> client = ib_client,
       session = ib_session,
       authenticated = False,
       server_process_id = PNone,
       is_windows = (os_name env = ''nt'') \<rparr>"

subsection \<open>String operations of Python\<close>

definition startswith :: "string \<Rightarrow> string \<Rightarrow> bool" where
  "startswith s p = (take (length p) s = p)"

text \<open>\<^verbatim>\<open>sub in s\<close> on strings.\<close>

fun contains_str :: "string \<Rightarrow> string \<Rightarrow> bool" where
  "contains_str sub [] = (sub = [])"
| "contains_str sub (c # cs) = (startswith (c # cs) sub \<or> contains_str sub cs)"

text \<open>The line boundaries of \<^verbatim>\<open>str.splitlines\<close> below code point 256.\<close>

definition is_linebreak :: "char \<Rightarrow> bool" where
  "is_linebreak c = (c \<in> set [CHR 0x0A, CHR 0x0B, CHR 0x0C, CHR 0x0D, CHR 0x1C, CHR 0x1D, CHR 0x1E, CHR 0x85])"

text \<open>\<^verbatim>\<open>str.splitlines()\<close>: \<open>cur\<close> is the line being read, reversed. A carriage return
  followed by a line feed is one boundary; a string that ends in a boundary has no empty
  last line.\<close>

fun splitlines_from :: "string \<Rightarrow> string \<Rightarrow> string list" where
  "splitlines_from cur [] = (if cur = [] then [] else [rev cur])"
| "splitlines_from cur (c # cs) =
     (if is_linebreak c
      then rev cur # splitlines_from []
             (if c = CHR 0x0D \<and> cs \<noteq> [] \<and> hd cs = CHR 0x0A then tl cs else cs)
      else splitlines_from (c # cur) cs)"

definition splitlines :: "string \<Rightarrow> string list" where
  "splitlines s = splitlines_from [] s"

text \<open>\<^verbatim>\<open>s.replace(old, '')\<close> for a one-character \<open>old\<close>.\<close>

definition remove_char :: "char \<Rightarrow> string \<Rightarrow> string" where
  "remove_char old s = filter (\<lambda>c. c \<noteq> old) s"

text \<open>\<^verbatim>\<open>s.split(sep)\<close> for a one-character separator.\<close>

fun split_from :: "char \<Rightarrow> string \<Rightarrow> string \<Rightarrow> string list" where
  "split_from sep cur [] = [rev cur]"
| "split_from sep cur (c # cs) =
     (if c = sep then rev cur # split_from sep [] cs else split_from sep (c # cur) cs)"

definition split :: "char \<Rightarrow> string \<Rightarrow> string list" where
  "split sep s = split_from sep [] s"

text \<open>\<^verbatim>\<open>str(n)\<close> for an integer.\<close>

fun str_nat :: "nat \<Rightarrow> string" where
  "str_nat n =
     (if n < 10 then [''0123456789'' ! n]
      else str_nat (n div 10) @ [''0123456789'' ! (n mod 10)])"

declare str_nat.simps [simp del]

definition str_int :: "int \<Rightarrow> string" where
  "str_int i = (if i < 0 then CHR ''-'' # str_nat (nat (- i)) else str_nat (nat i))"

fun str :: "pyval \<Rightarrow> string" where
  "str PNone = ''None''"
| "str (PInt i) = str_int i"
| "str (PStr s) = s"

subsection \<open>The rows of \<^verbatim>\<open>csv.DictReader\<close>\<close>

text \<open>
  A row is a dictionary from the field names to the cells, a cell being a string or
  \<^verbatim>\<open>None\<close> (the \<^verbatim>\<open>restval\<close> of a short row); the cells beyond the field names are
  held under the key \<^verbatim>\<open>None\<close> (the \<^verbatim>\<open>restkey\<close>), the second component here.
\<close>

type_synonym csv_row = "(string \<rightharpoonup> string option) \<times> string list option"

definition dict_row :: "string list \<Rightarrow> string list \<Rightarrow> csv_row" where
  "dict_row fieldnames row =
     (let d = map_of (rev (zip fieldnames (map Some row)));
          lf = length fieldnames;
          lr = length row
      in if lf < lr then (d, Some (drop lf row))
         else if lf > lr then (fold (\<lambda>key m. m(key \<mapsto> None)) (drop lr fieldnames) d, None)
         else (d, None))"

text \<open>\<^verbatim>\<open>list(csv.DictReader(f=f, fieldnames=fieldnames))\<close>: empty rows are skipped.\<close>

definition DictReader :: "'s env \<Rightarrow> string list \<Rightarrow> string list \<Rightarrow> exn + csv_row list" where
  "DictReader env f fieldnames =
     (case csv_reader env f of
        Inl e \<Rightarrow> Inl e
      | Inr rows \<Rightarrow> Inr (map (dict_row fieldnames) (filter (\<lambda>row. row \<noteq> []) rows)))"

subsection \<open>Detecting a running gateway\<close>

datatype rdata = DStr string | DLines "string list" | DRows "csv_row list"

record running_response =
  is_running :: bool
  data :: rdata

definition tasklist_command :: "string list" where
  "tasklist_command =
     [''tasklist'', ''/fi'', ''WindowTitle eq Interactive Brokers Python API*'', ''/FO'', ''CSV'']"

definition pgrep_pattern :: string where
  "pgrep_pattern = ''Interactive Brokers Python API*''"

definition pgrep_command :: "string list" where
  "pgrep_command = [''pgrep'', ''-f'', pgrep_pattern]"

text \<open>\<^verbatim>\<open>'PID' in data[0]\<close>: on a string \<open>data[0]\<close> is its first character, on a list of
  rows the first dictionary, whose keys are searched.\<close>

definition PID_in_first :: "rdata \<Rightarrow> exn + bool" where
  "PID_in_first d =
     (case d of
        DStr s \<Rightarrow> (case s of [] \<Rightarrow> Inl IndexError | c # _ \<Rightarrow> Inr (contains_str ''PID'' [c]))
      | DLines ls \<Rightarrow> (case ls of [] \<Rightarrow> Inl IndexError | l # _ \<Rightarrow> Inr (contains_str ''PID'' l))
      | DRows rows \<Rightarrow> (case rows of [] \<Rightarrow> Inl IndexError | r # _ \<Rightarrow> Inr (fst r ''PID'' \<noteq> None)))"

text \<open>\<^verbatim>\<open>data[0]['PID']\<close>.\<close>

definition first_PID :: "rdata \<Rightarrow> exn + pyval" where
  "first_PID d =
     (case d of
        DStr s \<Rightarrow> (case s of [] \<Rightarrow> Inl IndexError | _ # _ \<Rightarrow> Inl TypeError)
      | DLines ls \<Rightarrow> (case ls of [] \<Rightarrow> Inl IndexError | _ # _ \<Rightarrow> Inl TypeError)
      | DRows rows \<Rightarrow>
          (case rows of
             [] \<Rightarrow> Inl IndexError
           | r # _ \<Rightarrow>
               (case fst r ''PID'' of
                  None \<Rightarrow> Inl KeyError
                | Some None \<Rightarrow> Inr PNone
                | Some (Some s) \<Rightarrow> Inr (PStr s))))"

text \<open>The parsing of the \<^verbatim>\<open>tasklist\<close> output, up to the assignment of \<open>data\<close>.\<close>

definition tasklist_data :: "'s env \<Rightarrow> string \<Rightarrow> exn + rdata" where
  "tasklist_data env content =
     (if contains_str ''INFO:'' content then Inr (DStr content)
      else
        (case splitlines content of
           [] \<Rightarrow> Inl IndexError
         | first # rest \<Rightarrow>
             (case DictReader env rest (split (CHR '','') (remove_char (CHR 0x22) first)) of
                Inl e \<Rightarrow> Inl e
              | Inr rows \<Rightarrow> Inr (DRows rows))))"

definition is_already_running ::
  "'s env \<Rightarrow> ('c, 's) auth \<Rightarrow> event list
     \<Rightarrow> (exn + running_response) \<times> ('c, 's) auth \<times> event list" where
  "is_already_running env self tr =
     (let command = (if is_windows self then tasklist_command else pgrep_command);
          tr1 = tr @ [Run command]
      in case run_and_decode env tr command of
           Inl e \<Rightarrow> (Inl e, self, tr1)
         | Inr content \<Rightarrow>
             if is_windows self then
               (case tasklist_data env content of
                  Inl e \<Rightarrow> (Inl e, self, tr1)
                | Inr d \<Rightarrow>
                    (case PID_in_first d of
                       Inl e \<Rightarrow> (Inl e, self, tr1)
                     | Inr True \<Rightarrow>
                         (case first_PID d of
                            Inl e \<Rightarrow> (Inl e, self, tr1)
                          | Inr p \<Rightarrow>
                              (Inr \<lparr> is_running = True, data = d \<rparr>,
                               self\<lparr> server_process_id := p \<rparr>, tr1))
                     | Inr False \<Rightarrow> (Inr \<lparr> is_running = False, data = d \<rparr>, self, tr1)))
             else if content = '''' then
               (Inr \<lparr> is_running = False,
                      data = DStr ''INFO: No tasks are running which match the specified criteria.'' \<rparr>,
                self, tr1)
             else
               (case splitlines content of
                  [] \<Rightarrow> (Inl IndexError, self, tr1)
                | first # rest \<Rightarrow>
                    (Inr \<lparr> is_running = True, data = DLines (first # rest) \<rparr>,
                     self\<lparr> server_process_id := PStr first \<rparr>, tr1)))"

subsection \<open>Starting and closing the gateway\<close>

definition windows_gateway_args :: "string list" where
  "windows_gateway_args =
     [''cmd'', ''/k'', ''start'', ''Interactive Brokers Python API'',
      ''bin'' @ [CHR 0x5C] @ ''run.bat'', ''root'' @ [CHR 0x5C] @ ''conf.yaml'']"

definition posix_gateway_args :: "string list" where
  "posix_gateway_args =
     [''bash'', ''-c'', ''exec -a Interactive_Brokers_Python_API bin/run.sh root/conf.yaml'']"

definition gateway_kwargs :: "bool \<Rightarrow> popen_kwargs" where
  "gateway_kwargs windows =
     (let subprocess_popn_kwargs =
            \<lparr> cwd = ''ibc/resources/clientportal.beta.gw'',
              start_new_session = True,
              stdin = DEVNULL,
              stdout = DEVNULL,
              stderr = DEVNULL,
              args = None,
              creationflags = None \<rparr>
      in if windows
         then subprocess_popn_kwargs
                \<lparr> args := Some windows_gateway_args,
                  creationflags := Some CREATE_NEW_CONSOLE \<rparr>
         else subprocess_popn_kwargs\<lparr> args := Some posix_gateway_args \<rparr>)"

text \<open>When \<^verbatim>\<open>subprocess.Popen\<close> raises, the process id is not stored and the browser is
  not opened.\<close>

definition startup_gateway ::
  "'s env \<Rightarrow> ('c, 's) auth \<Rightarrow> event list \<Rightarrow> (exn + unit) \<times> ('c, 's) auth \<times> event list" where
  "startup_gateway env self tr =
     (let kwargs = gateway_kwargs (is_windows self);
          tr1 = tr @ [Popen kwargs]
      in case subprocess_Popen env tr kwargs of
           Inl e \<Rightarrow> (Inl e, self, tr1)
         | Inr pid \<Rightarrow>
             (Inr (),
              self\<lparr> server_process_id := PInt pid \<rparr>,
              tr1 @ [WebbrowserOpen ''https://localhost:5000'']))"

definition login ::
  "'s env \<Rightarrow> bool \<Rightarrow> ('c, 's) auth \<Rightarrow> event list \<Rightarrow> (exn + unit) \<times> ('c, 's) auth \<times> event list" where
  "login env use_selenium self tr =
     (case is_already_running env self tr of
        (Inl e, self1, tr1) \<Rightarrow> (Inl e, self1, tr1)
      | (Inr is_running_response, self1, tr1) \<Rightarrow>
          if \<not> is_running is_running_response then startup_gateway env self1 tr1
          else (Inr (), self1,
                tr1 @ [Print ''Gateway already running, no need to start back up.'']))"

definition close_command :: "bool \<Rightarrow> pyval \<Rightarrow> string list" where
  "close_command windows pid =
     (if windows then [''Taskkill'', ''/F'', ''/PID'', str pid] else [''kill'', ''-9'', str pid])"

definition close_gateway ::
  "'s env \<Rightarrow> pyval \<Rightarrow> ('c, 's) auth \<Rightarrow> event list \<Rightarrow> (exn + string) \<times> ('c, 's) auth \<times> event list" where
  "close_gateway env pid self tr =
     (let pid1 = (if pid = PNone then server_process_id self else pid);
          command = close_command (is_windows self) pid1
      in (run_and_decode env tr command, self, tr @ [Run command]))"

subsection \<open>Forwarding to the session\<close>

definition session_make_request ::
  "'s env \<Rightarrow> request \<Rightarrow> ('c, 's) auth \<Rightarrow> event list \<Rightarrow> (exn + json) \<times> ('c, 's) auth \<times> event list" where
  "session_make_request env r self tr =
     (make_request env (session self) tr r, self, tr @ [MakeRequest r])"

definition is_authenticated ::
  "'s env \<Rightarrow> bool \<Rightarrow> ('c, 's) auth \<Rightarrow> event list \<Rightarrow> (exn + json) \<times> ('c, 's) auth \<times> event list" where
  "is_authenticated env check self tr =
     session_make_request env
       \<lparr> http_method = ''post'', endpoint = ''/api/iserver/auth/status'', json_payload = None \<rparr>
       self tr"

definition update_server_account ::
  "'s env \<Rightarrow> string \<Rightarrow> ('c, 's) auth \<Rightarrow> event list \<Rightarrow> (exn + json) \<times> ('c, 's) auth \<times> event list" where
  "update_server_account env account_id self tr =
     (let payload = JDict [(''acctId'', JStr account_id)]
      in session_make_request env
           \<lparr> http_method = ''post'', endpoint = ''/api/iserver/account'', json_payload = Some payload \<rparr>
           self tr)"

definition sso_validate ::
  "'s env \<Rightarrow> ('c, 's) auth \<Rightarrow> event list \<Rightarrow> (exn + json) \<times> ('c, 's) auth \<times> event list" where
  "sso_validate env self tr =
     session_make_request env
       \<lparr> http_method = ''post'', endpoint = ''/api/sso/validate'', json_payload = None \<rparr>
       self tr"

definition reauthenticate ::
  "'s env \<Rightarrow> ('c, 's) auth \<Rightarrow> event list \<Rightarrow> (exn + json) \<times> ('c, 's) auth \<times> event list" where
  "reauthenticate env self tr =
     session_make_request env
       \<lparr> http_method = ''post'', endpoint = ''/api/iserver/reauthenticate'', json_payload = None \<rparr>
       self tr"

subsection \<open>Checking the authentication\<close>

text \<open>\<^verbatim>\<open>response[key]\<close> for a string key: only a dictionary that holds the key answers.\<close>

definition getitem :: "json \<Rightarrow> string \<Rightarrow> exn + json" where
  "getitem response key =
     (case response of
        JDict d \<Rightarrow> (case map_of d key of None \<Rightarrow> Inl KeyError | Some v \<Rightarrow> Inr v)
      | _ \<Rightarrow> Inl TypeError)"

text \<open>\<^verbatim>\<open>v == True\<close>: Python's \<^verbatim>\<open>True\<close> equals the number one.\<close>

fun eq_True :: "json \<Rightarrow> bool" where
  "eq_True (JBool b) = b"
| "eq_True (JInt i) = (i = 1)"
| "eq_True (JFloat r) = (r = 1)"
| "eq_True _ = False"

text \<open>\<^verbatim>\<open>try: body except Exception: return\<close>, for a body that has run to the
  outcome \<open>r\<close>.\<close>

definition except_Exception_return ::
  "(exn + unit) \<times> 'st \<Rightarrow> (exn + unit) \<times> 'st" where
  "except_Exception_return r =
     (case r of
        (Inl e, st) \<Rightarrow> if is_Exception e then (Inr (), st) else (Inl e, st)
      | (Inr u, st) \<Rightarrow> (Inr u, st))"

definition check_auth ::
  "'s env \<Rightarrow> ('c, 's) auth \<Rightarrow> event list \<Rightarrow> (exn + unit) \<times> ('c, 's) auth \<times> event list" where
  "check_auth env self tr =
     except_Exception_return
       (case is_authenticated env False self (tr @ [Print ''Checking authentication status...'']) of
          (Inl e, self1, tr1) \<Rightarrow> (Inl e, self1, tr1)
        | (Inr response, self1, tr1) \<Rightarrow>
            (case getitem response ''authenticated'' of
               Inl e \<Rightarrow> (Inl e, self1, tr1)
             | Inr v \<Rightarrow>
                 if eq_True v then (Inr (), self1\<lparr> authenticated := True \<rparr>, tr1)
                 else (Inr (), self1, tr1)))"

subsection \<open>The operations of the class\<close>

datatype op =
    Login bool
  | StartupGateway
  | IsAlreadyRunning
  | CloseGateway pyval
  | IsAuthenticated bool
  | UpdateServerAccount string
  | SsoValidate
  | Reauthenticate
  | CheckAuth

text \<open>The state an operation leaves, whether it returns or raises.\<close>

fun run_op :: "'s env \<Rightarrow> op \<Rightarrow> ('c, 's) auth \<times> event list \<Rightarrow> ('c, 's) auth \<times> event list" where
  "run_op env (Login use_selenium) (self, tr) = snd (login env use_selenium self tr)"
| "run_op env StartupGateway (self, tr) = snd (startup_gateway env self tr)"
| "run_op env IsAlreadyRunning (self, tr) = snd (is_already_running env self tr)"
| "run_op env (CloseGateway pid) (self, tr) = snd (close_gateway env pid self tr)"
| "run_op env (IsAuthenticated check) (self, tr) = snd (is_authenticated env check self tr)"
| "run_op env (UpdateServerAccount account_id) (self, tr) =
     snd (update_server_account env account_id self tr)"
| "run_op env SsoValidate (self, tr) = snd (sso_validate env self tr)"
| "run_op env Reauthenticate (self, tr) = snd (reauthenticate env self tr)"
| "run_op env CheckAuth (self, tr) = snd (check_auth env self tr)"

text \<open>A caller that runs one operation after the other, going on after an exception.\<close>

definition run_ops ::
  "'s env \<Rightarrow> op list \<Rightarrow> ('c, 's) auth \<times> event list \<Rightarrow> ('c, 's) auth \<times> event list" where
  "run_ops env ops st = fold (run_op env) ops st"

subsection \<open>Reading a trace\<close>

text \<open>The processes launched, the pages opened and the requests made, in order.\<close>

fun launches :: "event list \<Rightarrow> popen_kwargs list" where
  "launches [] = []"
| "launches (Popen kwargs # tr) = kwargs # launches tr"
| "launches (_ # tr) = launches tr"

fun browser_urls :: "event list \<Rightarrow> string list" where
  "browser_urls [] = []"
| "browser_urls (WebbrowserOpen url # tr) = url # browser_urls tr"
| "browser_urls (_ # tr) = browser_urls tr"

fun requests :: "event list \<Rightarrow> request list" where
  "requests [] = []"
| "requests (MakeRequest r # tr) = r # requests tr"
| "requests (_ # tr) = requests tr"

definition endpoints_requested :: "event list \<Rightarrow> string set" where
  "endpoints_requested tr = set (map endpoint (requests tr))"

text \<open>The endpoints that section 6 of the specification lists.\<close>

definition gateway_endpoints :: "string list" where
  "gateway_endpoints =
     [''/api/iserver/auth/status'', ''/api/iserver/account'', ''/api/sso/validate'',
      ''/api/iserver/reauthenticate'']"

text \<open>The command that looks for a running gateway, the request of the status check,
  the message of an empty \<^verbatim>\<open>pgrep\<close> answer, the operations that assign
  \<^verbatim>\<open>server_process_id\<close>, and one call of each forwarding operation.\<close>

definition detection_command :: "bool \<Rightarrow> string list" where
  "detection_command windows = (if windows then tasklist_command else pgrep_command)"

definition status_request :: request where
  "status_request =
     \<lparr> http_method = ''post'', endpoint = ''/api/iserver/auth/status'', json_payload = None \<rparr>"

definition info_message :: string where
  "info_message = ''INFO: No tasks are running which match the specified criteria.''"

fun assigns_process_id :: "op \<Rightarrow> bool" where
  "assigns_process_id (Login _) = True"
| "assigns_process_id StartupGateway = True"
| "assigns_process_id IsAlreadyRunning = True"
| "assigns_process_id _ = False"

definition every_forwarding_op :: "op list" where
  "every_forwarding_op =
     [IsAuthenticated False, UpdateServerAccount ''U1234567'', SsoValidate, Reauthenticate]"

subsection \<open>A reference POSIX environment\<close>

text \<open>
  What \<^verbatim>\<open>pgrep -f pattern\<close> and \<^verbatim>\<open>bash -c "exec -a name program argument ..."\<close>
  do, as far as the module uses them. The pattern is an extended regular expression
  that is searched anywhere in the full command line of each process; of the syntax
  only ordinary characters and the postfix star are modelled, which is all that the
  module's pattern uses.
\<close>

datatype re_item = Lit char | Star char

fun parse_pattern :: "string \<Rightarrow> re_item list" where
  "parse_pattern [] = []"
| "parse_pattern [c] = [Lit c]"
| "parse_pattern (c # d # cs) =
     (if d = CHR ''*'' then Star c # parse_pattern cs else Lit c # parse_pattern (d # cs))"

fun match_here :: "re_item list \<Rightarrow> string \<Rightarrow> bool" where
  "match_here [] s = True"
| "match_here (Lit c # items) [] = False"
| "match_here (Lit c # items) (d # ds) = (c = d \<and> match_here items ds)"
| "match_here (Star c # items) [] = match_here items []"
| "match_here (Star c # items) (d # ds) =
     (match_here items (d # ds) \<or> (c = d \<and> match_here (Star c # items) ds))"

fun search :: "re_item list \<Rightarrow> string \<Rightarrow> bool" where
  "search items [] = match_here items []"
| "search items (c # cs) = (match_here items (c # cs) \<or> search items cs)"

definition pgrep_f_matches :: "string \<Rightarrow> string \<Rightarrow> bool" where
  "pgrep_f_matches pattern cmdline = search (parse_pattern pattern) cmdline"

definition join :: "string \<Rightarrow> string list \<Rightarrow> string" where
  "join sep xs = (case xs of [] \<Rightarrow> [] | x # rest \<Rightarrow> x @ concat (map (\<lambda>y. sep @ y) rest))"

text \<open>
  \<^verbatim>\<open>exec -a name program argument ...\<close> replaces the shell by the program, with \<open>name\<close>
  as its zeroth argument: the command line of the process is \<open>name\<close> followed by the
  arguments. When the program is a script that starts with \<^verbatim>\<open>#!\<close>, the kernel runs
  the interpreter named there instead, and the command line is the interpreter, the
  path of the script and the arguments; the name given with \<^verbatim>\<open>-a\<close> is lost. The
  script \<^verbatim>\<open>bin/run.sh\<close> is not among the sources, so its interpreter is a parameter:
  \<open>None\<close> for a program that is run as it is.
\<close>

definition bash_exec_argv :: "string option \<Rightarrow> string \<Rightarrow> string list" where
  "bash_exec_argv interpreter script =
     (case split (CHR '' '') script of
        e # a # name # prog # rest \<Rightarrow>
          if e = ''exec'' \<and> a = ''-a''
          then (case interpreter of None \<Rightarrow> name # rest | Some i \<Rightarrow> i # prog # rest)
          else [''bash'', ''-c'', script]
      | _ \<Rightarrow> [''bash'', ''-c'', script])"

definition popen_cmdline :: "string option \<Rightarrow> popen_kwargs \<Rightarrow> string" where
  "popen_cmdline interpreter kwargs =
     (case args kwargs of
        None \<Rightarrow> ''''
      | Some a \<Rightarrow>
          (case a of
             [b, c, script] \<Rightarrow>
               if b = ''bash'' \<and> c = ''-c'' then join '' '' (bash_exec_argv interpreter script)
               else join '' '' a
           | _ \<Rightarrow> join '' '' a))"

text \<open>
  The process table after a trace: a launched process gets the next process id, and
  \<^verbatim>\<open>kill -9 pid\<close> removes the process. \<^verbatim>\<open>pgrep\<close> prints the ids of the matching
  processes, one on a line. In this environment every command runs, every output
  decodes and every launch succeeds.
\<close>

fun posix_step ::
  "string option \<Rightarrow> int \<times> (int \<times> string) list \<Rightarrow> event \<Rightarrow> int \<times> (int \<times> string) list" where
  "posix_step interpreter (next_pid, procs) (Popen kwargs) =
     (next_pid + 1, procs @ [(next_pid, popen_cmdline interpreter kwargs)])"
| "posix_step interpreter (next_pid, procs) (Run command) =
     (case command of
        [k, s, p] \<Rightarrow>
          if k = ''kill'' \<and> s = ''-9''
          then (next_pid, filter (\<lambda>proc. str_int (fst proc) \<noteq> p) procs)
          else (next_pid, procs)
      | _ \<Rightarrow> (next_pid, procs))"
| "posix_step interpreter st _ = st"

definition posix_table :: "string option \<Rightarrow> event list \<Rightarrow> int \<times> (int \<times> string) list" where
  "posix_table interpreter tr = foldl (posix_step interpreter) (1000, []) tr"

definition posix_run :: "string option \<Rightarrow> event list \<Rightarrow> string list \<Rightarrow> bytes" where
  "posix_run interpreter tr command =
     (case command of
        [p, f, pattern] \<Rightarrow>
          if p = ''pgrep'' \<and> f = ''-f''
          then concat (map (\<lambda>proc. str_int (fst proc) @ [CHR 0x0A])
                 (filter (\<lambda>proc. pgrep_f_matches pattern (snd proc))
                    (snd (posix_table interpreter tr))))
          else ''''
      | _ \<Rightarrow> '''')"

definition posix_env :: "string option \<Rightarrow> unit env" where
  "posix_env interpreter =
     \<lparr> os_name = ''posix'',
       subprocess_run = (\<lambda>tr command. Inr (posix_run interpreter tr command)),
       decode = Inr,
       subprocess_Popen = (\<lambda>tr kwargs. Inr (fst (posix_table interpreter tr))),
       csv_reader = (\<lambda>f. Inr []),
       make_request = (\<lambda>s tr r. Inr JNull) \<rparr>"

subsection \<open>Environments for concrete runs\<close>

text \<open>No gateway is found, the launch succeeds and the session answers that it is
  authenticated.\<close>

definition quiet_env :: "unit env" where
  "quiet_env =
     \<lparr> os_name = ''posix'',
       subprocess_run = (\<lambda>tr command. Inr ''''),
       decode = Inr,
       subprocess_Popen = (\<lambda>tr kwargs. Inr 4711),
       csv_reader = (\<lambda>f. Inr []),
       make_request = (\<lambda>s tr r. Inr (JDict [(''authenticated'', JBool True)])) \<rparr>"

text \<open>Two matching processes are found and the session raises a connection error.\<close>

definition busy_env :: "unit env" where
  "busy_env =
     \<lparr> os_name = ''posix'',
       subprocess_run = (\<lambda>tr command. Inr (''4711'' @ [CHR 0x0A] @ ''4712'' @ [CHR 0x0A])),
       decode = Inr,
       subprocess_Popen = (\<lambda>tr kwargs. Inr 4713),
       csv_reader = (\<lambda>f. Inr []),
       make_request = (\<lambda>s tr r. Inl (Exception ''ConnectionError'')) \<rparr>"

text \<open>The session is interrupted from the keyboard.\<close>

definition interrupted_env :: "unit env" where
  "interrupted_env =
     \<lparr> os_name = ''posix'',
       subprocess_run = (\<lambda>tr command. Inr ''''),
       decode = Inr,
       subprocess_Popen = (\<lambda>tr kwargs. Inr 4711),
       csv_reader = (\<lambda>f. Inr []),
       make_request = (\<lambda>s tr r. Inl (BaseException ''KeyboardInterrupt'')) \<rparr>"

text \<open>No gateway is found, and the working directory of the gateway does not exist:
  the launch raises.\<close>

definition missing_directory_env :: "unit env" where
  "missing_directory_env =
     \<lparr> os_name = ''posix'',
       subprocess_run = (\<lambda>tr command. Inr ''''),
       decode = Inr,
       subprocess_Popen = (\<lambda>tr kwargs. Inl (Exception ''FileNotFoundError'')),
       csv_reader = (\<lambda>f. Inr []),
       make_request = (\<lambda>s tr r. Inr JNull) \<rparr>"

text \<open>The executable of a command is not found: running a command raises.\<close>

definition missing_executable_env :: "unit env" where
  "missing_executable_env =
     \<lparr> os_name = ''posix'',
       subprocess_run = (\<lambda>tr command. Inl (Exception ''FileNotFoundError'')),
       decode = Inr,
       subprocess_Popen = (\<lambda>tr kwargs. Inr 4711),
       csv_reader = (\<lambda>f. Inr []),
       make_request = (\<lambda>s tr r. Inr JNull) \<rparr>"

text \<open>A Windows system whose \<^verbatim>\<open>Taskkill\<close> answers in a code page that is not UTF-8:
  the output does not decode.\<close>

definition undecodable_env :: "unit env" where
  "undecodable_env =
     \<lparr> os_name = ''nt'',
       subprocess_run = (\<lambda>tr command. Inr [CHR 0xFF]),
       decode = (\<lambda>out. if out = [CHR 0xFF] then Inl (Exception ''UnicodeDecodeError'') else Inr out),
       subprocess_Popen = (\<lambda>tr kwargs. Inr 4711),
       csv_reader = (\<lambda>f. Inr []),
       make_request = (\<lambda>s tr r. Inr JNull) \<rparr>"

section \<open>Properties\<close>

subsection \<open>Auxiliary facts\<close>

lemmas env_defs =
  quiet_env_def busy_env_def interrupted_env_def missing_directory_env_def
  missing_executable_env_def undecodable_env_def init_def

lemma launches_append: "launches (tr @ tr') = launches tr @ launches tr'"
  by (induction tr rule: launches.induct) simp_all

lemma browser_urls_append: "browser_urls (tr @ tr') = browser_urls tr @ browser_urls tr'"
  by (induction tr rule: browser_urls.induct) simp_all

lemma requests_append: "requests (tr @ tr') = requests tr @ requests tr'"
  by (induction tr rule: requests.induct) simp_all

lemma splitlines_from_nonempty: "cur \<noteq> [] \<or> s \<noteq> [] \<Longrightarrow> splitlines_from cur s \<noteq> []"
  by (induction s arbitrary: cur) auto

lemma splitlines_nonempty: "s \<noteq> [] \<Longrightarrow> splitlines s \<noteq> []"
  by (simp add: splitlines_def splitlines_from_nonempty)

lemma is_already_running_trace:
  "snd (snd (is_already_running env self tr)) = tr @ [Run (detection_command (is_windows self))]"
  by (simp add: is_already_running_def detection_command_def Let_def
      split: sum.splits list.splits bool.splits)

lemma is_already_running_frame:
  "fst (snd (is_already_running env self tr)) = self' \<Longrightarrow>
     client self' = client self \<and> session self' = session self \<and>
     authenticated self' = authenticated self \<and> is_windows self' = is_windows self"
  by (auto simp add: is_already_running_def Let_def
      split: sum.splits list.splits bool.splits if_splits)

lemma startup_gateway_cases:
  "startup_gateway env self tr =
     (case subprocess_Popen env tr (gateway_kwargs (is_windows self)) of
        Inl e \<Rightarrow> (Inl e, self, tr @ [Popen (gateway_kwargs (is_windows self))])
      | Inr pid \<Rightarrow>
          (Inr (), self\<lparr> server_process_id := PInt pid \<rparr>,
           tr @ [Popen (gateway_kwargs (is_windows self)),
                 WebbrowserOpen ''https://localhost:5000'']))"
  by (simp add: startup_gateway_def Let_def split: sum.splits)

lemma startup_gateway_requests:
  "requests (snd (snd (startup_gateway env self tr))) = requests tr"
  by (simp add: startup_gateway_cases requests_append split: sum.splits)

lemma startup_gateway_frame:
  "fst (snd (startup_gateway env self tr)) = self' \<Longrightarrow>
     client self' = client self \<and> session self' = session self \<and>
     authenticated self' = authenticated self \<and> is_windows self' = is_windows self"
  by (auto simp add: startup_gateway_cases split: sum.splits)

lemma login_requests: "requests (snd (snd (login env u self tr))) = requests tr"
proof -
  obtain r s1 t1 where i: "is_already_running env self tr = (r, s1, t1)"
    by (cases "is_already_running env self tr") auto
  have t: "t1 = tr @ [Run (detection_command (is_windows self))]"
    using is_already_running_trace [of env self tr] i by simp
  show ?thesis
    using i t by (cases r) (simp_all add: login_def startup_gateway_requests requests_append)
qed

lemma login_frame:
  "fst (snd (login env u self tr)) = self' \<Longrightarrow>
     client self' = client self \<and> session self' = session self \<and>
     authenticated self' = authenticated self \<and> is_windows self' = is_windows self"
proof -
  assume a: "fst (snd (login env u self tr)) = self'"
  obtain r s1 t1 where i: "is_already_running env self tr = (r, s1, t1)"
    by (cases "is_already_running env self tr") auto
  have f: "client s1 = client self \<and> session s1 = session self \<and>
     authenticated s1 = authenticated self \<and> is_windows s1 = is_windows self"
    using is_already_running_frame [of env self tr s1] i by simp
  show ?thesis
  proof (cases r)
    case (Inl e)
    then show ?thesis
      using a i f by (simp add: login_def)
  next
    case (Inr report)
    show ?thesis
    proof (cases "is_running report")
      case True
      then show ?thesis
        using a i f Inr by (simp add: login_def)
    next
      case False
      then have "fst (snd (startup_gateway env s1 t1)) = self'"
        using a i Inr by (simp add: login_def)
      then show ?thesis
        using startup_gateway_frame [of env s1 t1 self'] f by simp
    qed
  qed
qed

lemma check_auth_self:
  "fst (snd (check_auth env self tr)) = self \<or>
   fst (snd (check_auth env self tr)) = self\<lparr> authenticated := True \<rparr>"
  by (auto simp add: check_auth_def is_authenticated_def session_make_request_def
      except_Exception_return_def split: sum.splits if_splits)

lemma check_auth_trace:
  "snd (snd (check_auth env self tr)) =
     tr @ [Print ''Checking authentication status...'', MakeRequest status_request]"
  by (auto simp add: check_auth_def is_authenticated_def session_make_request_def
      except_Exception_return_def status_request_def split: sum.splits if_splits)

lemma run_op_frame:
  "run_op env op (self, tr) = (self', tr') \<Longrightarrow>
     client self' = client self \<and> session self' = session self \<and>
     is_windows self' = is_windows self \<and>
     (op \<noteq> CheckAuth \<longrightarrow> authenticated self' = authenticated self) \<and>
     (\<not> assigns_process_id op \<longrightarrow> server_process_id self' = server_process_id self)"
proof (cases op)
  case (Login u)
  assume "run_op env op (self, tr) = (self', tr')"
  then show ?thesis
    using Login login_frame [of env u self tr self'] by simp
next
  case StartupGateway
  assume "run_op env op (self, tr) = (self', tr')"
  then show ?thesis
    using StartupGateway startup_gateway_frame [of env self tr self'] by simp
next
  case IsAlreadyRunning
  assume "run_op env op (self, tr) = (self', tr')"
  then show ?thesis
    using IsAlreadyRunning is_already_running_frame [of env self tr self'] by simp
next
  case (CloseGateway pid)
  assume "run_op env op (self, tr) = (self', tr')"
  then show ?thesis
    using CloseGateway by (auto simp add: close_gateway_def Let_def)
next
  case (IsAuthenticated check)
  assume "run_op env op (self, tr) = (self', tr')"
  then show ?thesis
    using IsAuthenticated by (auto simp add: is_authenticated_def session_make_request_def)
next
  case (UpdateServerAccount account_id)
  assume "run_op env op (self, tr) = (self', tr')"
  then show ?thesis
    using UpdateServerAccount
    by (auto simp add: update_server_account_def session_make_request_def Let_def)
next
  case SsoValidate
  assume "run_op env op (self, tr) = (self', tr')"
  then show ?thesis
    using SsoValidate by (auto simp add: sso_validate_def session_make_request_def)
next
  case Reauthenticate
  assume "run_op env op (self, tr) = (self', tr')"
  then show ?thesis
    using Reauthenticate by (auto simp add: reauthenticate_def session_make_request_def)
next
  case CheckAuth
  assume "run_op env op (self, tr) = (self', tr')"
  then show ?thesis
    using CheckAuth check_auth_self [of env self tr] by auto
qed

lemma run_op_monotone:
  "authenticated (fst st) \<Longrightarrow> authenticated (fst (run_op env op st))"
proof -
  assume a: "authenticated (fst st)"
  obtain self tr where st: "st = (self, tr)" by (cases st)
  obtain self' tr' where r: "run_op env op (self, tr) = (self', tr')"
    by (cases "run_op env op (self, tr)")
  show ?thesis
  proof (cases "op = CheckAuth")
    case True
    then show ?thesis
      using a st check_auth_self [of env self tr] by auto
  next
    case False
    then show ?thesis
      using a st r run_op_frame [OF r] by simp
  qed
qed

lemma run_ops_monotone:
  "authenticated (fst st) \<Longrightarrow> authenticated (fst (run_ops env ops st))"
  unfolding run_ops_def
  by (induction ops arbitrary: st) (simp_all add: run_op_monotone)

lemma run_op_endpoints:
  "endpoints_requested (snd (run_op env op st)) \<subseteq>
     endpoints_requested (snd st) \<union> set gateway_endpoints"
proof -
  obtain self tr where st: "st = (self, tr)" by (cases st)
  show ?thesis
    unfolding st
    by (cases op)
      (auto simp add: endpoints_requested_def login_requests startup_gateway_requests
        is_already_running_trace close_gateway_def is_authenticated_def
        update_server_account_def sso_validate_def reauthenticate_def
        session_make_request_def check_auth_trace status_request_def requests_append
        gateway_endpoints_def Let_def)
qed

lemma run_ops_endpoints:
  "endpoints_requested (snd (run_ops env ops st)) \<subseteq>
     endpoints_requested (snd st) \<union> set gateway_endpoints"
  unfolding run_ops_def
proof (induction ops arbitrary: st)
  case Nil
  show ?case by simp
next
  case (Cons op ops)
  have "endpoints_requested (snd (fold (run_op env) ops (run_op env op st))) \<subseteq>
     endpoints_requested (snd (run_op env op st)) \<union> set gateway_endpoints"
    by (rule Cons.IH)
  then show ?case
    using run_op_endpoints [of env op st] by auto
qed

lemma every_forwarding_op_endpoints:
  "endpoints_requested (snd (run_ops env every_forwarding_op (self, []))) = set gateway_endpoints"
  by (auto simp add: run_ops_def every_forwarding_op_def endpoints_requested_def
      is_authenticated_def update_server_account_def sso_validate_def reauthenticate_def
      session_make_request_def requests_append gateway_endpoints_def Let_def)

lemma gateway_name_not_matched:
  "\<not> pgrep_f_matches pgrep_pattern (popen_cmdline None (gateway_kwargs False))"
  by code_simp

lemma gateway_script_not_matched:
  "\<not> pgrep_f_matches pgrep_pattern (popen_cmdline (Some ''/bin/bash'') (gateway_kwargs False))"
  by code_simp

lemma gateway_name_matches_itself:
  "pgrep_f_matches ''Interactive_Brokers_Python_API*'' (popen_cmdline None (gateway_kwargs False))"
  by code_simp

lemma gateway_command_lines:
  "popen_cmdline None (gateway_kwargs False) = ''Interactive_Brokers_Python_API root/conf.yaml'' \<and>
   popen_cmdline (Some ''/bin/bash'') (gateway_kwargs False) = ''/bin/bash bin/run.sh root/conf.yaml''"
  by code_simp

subsection \<open>Login\<close>

text \<open>
  Claim C1, as stated, fails: the browser is opened only after \<^verbatim>\<open>subprocess.Popen\<close>
  has returned. Where the working directory of the gateway does not exist, no gateway
  is reported running, the launch raises \<^verbatim>\<open>FileNotFoundError\<close>, \<open>login\<close> propagates it
  and no browser is opened.
\<close>

theorem login_launch_failure_opens_no_browser:
  "fst (is_already_running missing_directory_env (init missing_directory_env () ()) []) =
     Inr \<lparr> is_running = False, data = DStr info_message \<rparr> \<and>
   login missing_directory_env False (init missing_directory_env () ()) [] =
     (Inl (Exception ''FileNotFoundError''), init missing_directory_env () (),
      [Run pgrep_command, Popen (gateway_kwargs False)]) \<and>
   browser_urls [Run pgrep_command, Popen (gateway_kwargs False)] = []"
  by (simp add: login_def is_already_running_def run_and_decode_def startup_gateway_cases
      info_message_def env_defs)

text \<open>
  Claim C1, amended. Whenever the detection reports (it runs exactly one detection
  command and starts nothing itself): if the report says that no gateway is running,
  \<open>login\<close> is \<open>startup_gateway\<close> from there, which calls \<^verbatim>\<open>subprocess.Popen\<close> once
  with the gateway's arguments; when that call returns, the process id is stored and
  \<^verbatim>\<open>https://localhost:5000\<close> is opened in the browser; when it raises, the exception
  is propagated, nothing is stored and no page is opened. If the report says that a
  gateway is running, \<open>login\<close> launches no process and opens no page, it only prints the
  message. So no second gateway is started when one is detected.
\<close>

theorem login_spawns_iff_not_running:
  "is_already_running env self tr = (Inr report, self1, tr1) \<Longrightarrow>
   login env use_selenium self tr = (res, self2, tr2) \<Longrightarrow>
     tr1 = tr @ [Run (detection_command (is_windows self))] \<and>
     (\<not> is_running report \<longrightarrow>
        (res, self2, tr2) = startup_gateway env self1 tr1 \<and>
        (\<forall>pid. subprocess_Popen env tr1 (gateway_kwargs (is_windows self)) = Inr pid \<longrightarrow>
           res = Inr () \<and> self2 = self1\<lparr> server_process_id := PInt pid \<rparr> \<and>
           tr2 = tr1 @ [Popen (gateway_kwargs (is_windows self)),
                        WebbrowserOpen ''https://localhost:5000''] \<and>
           launches tr2 = launches tr @ [gateway_kwargs (is_windows self)] \<and>
           browser_urls tr2 = browser_urls tr @ [''https://localhost:5000'']) \<and>
        (\<forall>e. subprocess_Popen env tr1 (gateway_kwargs (is_windows self)) = Inl e \<longrightarrow>
           res = Inl e \<and> self2 = self1 \<and>
           tr2 = tr1 @ [Popen (gateway_kwargs (is_windows self))] \<and>
           launches tr2 = launches tr @ [gateway_kwargs (is_windows self)] \<and>
           browser_urls tr2 = browser_urls tr)) \<and>
     (is_running report \<longrightarrow>
        res = Inr () \<and> self2 = self1 \<and>
        tr2 = tr1 @ [Print ''Gateway already running, no need to start back up.''] \<and>
        launches tr2 = launches tr \<and>
        browser_urls tr2 = browser_urls tr)"
proof -
  assume r: "is_already_running env self tr = (Inr report, self1, tr1)"
    and l: "login env use_selenium self tr = (res, self2, tr2)"
  have t: "tr1 = tr @ [Run (detection_command (is_windows self))]"
    using is_already_running_trace [of env self tr] r by simp
  have w: "is_windows self1 = is_windows self"
    using is_already_running_frame [of env self tr self1] r by simp
  show ?thesis
  proof (cases "is_running report")
    case True
    then show ?thesis
      using l r t by (auto simp add: login_def launches_append browser_urls_append)
  next
    case False
    then have s: "startup_gateway env self1 tr1 = (res, self2, tr2)"
      using l r by (simp add: login_def)
    have c: "(res, self2, tr2) =
       (case subprocess_Popen env tr1 (gateway_kwargs (is_windows self)) of
          Inl e \<Rightarrow> (Inl e, self1, tr1 @ [Popen (gateway_kwargs (is_windows self))])
        | Inr pid \<Rightarrow>
            (Inr (), self1\<lparr> server_process_id := PInt pid \<rparr>,
             tr1 @ [Popen (gateway_kwargs (is_windows self)),
                    WebbrowserOpen ''https://localhost:5000'']))"
      using s [unfolded startup_gateway_cases w] by simp
    show ?thesis
    proof (cases "subprocess_Popen env tr1 (gateway_kwargs (is_windows self))")
      case (Inl e)
      then have "res = Inl e \<and> self2 = self1 \<and>
         tr2 = tr1 @ [Popen (gateway_kwargs (is_windows self))]"
        using c by simp
      then show ?thesis
        using False t s Inl by (simp add: launches_append browser_urls_append)
    next
      case (Inr pid)
      then have "res = Inr () \<and> self2 = self1\<lparr> server_process_id := PInt pid \<rparr> \<and>
         tr2 = tr1 @ [Popen (gateway_kwargs (is_windows self)),
                      WebbrowserOpen ''https://localhost:5000'']"
        using c by simp
      then show ?thesis
        using False t s Inr by (simp add: launches_append browser_urls_append)
    qed
  qed
qed

theorem login_spawns_iff_not_running_witness:
  "login quiet_env False (init quiet_env () ()) [] =
     (Inr (), (init quiet_env () ())\<lparr> server_process_id := PInt 4711 \<rparr>,
      [Run pgrep_command, Popen (gateway_kwargs False), WebbrowserOpen ''https://localhost:5000'']) \<and>
   browser_urls
     [Run pgrep_command, Popen (gateway_kwargs False), WebbrowserOpen ''https://localhost:5000''] =
     [''https://localhost:5000''] \<and>
   login busy_env False (init busy_env () ()) [] =
     (Inr (), (init busy_env () ())\<lparr> server_process_id := PStr ''4711'' \<rparr>,
      [Run pgrep_command, Print ''Gateway already running, no need to start back up.'']) \<and>
   launches [Run pgrep_command, Print ''Gateway already running, no need to start back up.''] = []"
proof -
  have rq: "is_already_running quiet_env (init quiet_env () ()) [] =
     (Inr \<lparr> is_running = False, data = DStr info_message \<rparr>, init quiet_env () (),
      [Run pgrep_command])"
    by (simp add: is_already_running_def run_and_decode_def info_message_def env_defs)
  have lq: "login quiet_env False (init quiet_env () ()) [] =
     (Inr (), (init quiet_env () ())\<lparr> server_process_id := PInt 4711 \<rparr>,
      [Run pgrep_command, Popen (gateway_kwargs False), WebbrowserOpen ''https://localhost:5000''])"
    by (simp add: login_def rq startup_gateway_cases) (simp add: env_defs)
  have rb: "is_already_running busy_env (init busy_env () ()) [] =
     (Inr \<lparr> is_running = True, data = DLines [''4711'', ''4712''] \<rparr>,
      (init busy_env () ())\<lparr> server_process_id := PStr ''4711'' \<rparr>,
      [Run pgrep_command])"
    by (simp add: is_already_running_def run_and_decode_def env_defs Let_def splitlines_def
        is_linebreak_def)
  have lb: "login busy_env False (init busy_env () ()) [] =
     (Inr (), (init busy_env () ())\<lparr> server_process_id := PStr ''4711'' \<rparr>,
      [Run pgrep_command, Print ''Gateway already running, no need to start back up.''])"
    by (simp add: login_def rb)
  show ?thesis
    using login_spawns_iff_not_running [OF rq lq] login_spawns_iff_not_running [OF rb lb] lq lb
    by simp
qed

text \<open>
  Claim C2. On a system other than Windows the gateway is launched under the name
  \<^verbatim>\<open>Interactive_Brokers_Python_API\<close>, written with underscores, while the pattern
  given to \<^verbatim>\<open>pgrep\<close> is written with spaces: the pattern does not match the command
  line of the launched gateway, neither where the name is kept nor where the script
  is run by \<^verbatim>\<open>/bin/bash\<close> and the name is lost. In the reference environment a second
  \<open>login\<close> therefore finds nothing and launches the gateway a second time.
\<close>

theorem second_login_spawns_second_gateway:
  "\<not> pgrep_f_matches pgrep_pattern (popen_cmdline None (gateway_kwargs False)) \<and>
   launches (snd (run_ops (posix_env None) [Login False, Login False]
     (init (posix_env None) () (), []))) =
     [gateway_kwargs False, gateway_kwargs False] \<and>
   \<not> pgrep_f_matches pgrep_pattern (popen_cmdline (Some ''/bin/bash'') (gateway_kwargs False)) \<and>
   launches (snd (run_ops (posix_env (Some ''/bin/bash'')) [Login False, Login False]
     (init (posix_env (Some ''/bin/bash'')) () (), []))) =
     [gateway_kwargs False, gateway_kwargs False]"
proof -
  have named:
    "launches (snd (run_ops (posix_env None) [Login False, Login False]
       (init (posix_env None) () (), []))) =
       [gateway_kwargs False, gateway_kwargs False]"
    by code_simp
  have script:
    "launches (snd (run_ops (posix_env (Some ''/bin/bash'')) [Login False, Login False]
       (init (posix_env (Some ''/bin/bash'')) () (), []))) =
       [gateway_kwargs False, gateway_kwargs False]"
    by code_simp
  show ?thesis
    using gateway_name_not_matched gateway_script_not_matched named script by blast
qed

subsection \<open>Forwarding\<close>

text \<open>
  Claim C3. Each of the four forwarding operations makes exactly one request through
  the session, with method \<^verbatim>\<open>post\<close>, and its outcome is the session's outcome,
  unchanged; the object is unchanged. \<open>is_authenticated\<close> posts to
  \<^verbatim>\<open>/api/iserver/auth/status\<close>, \<open>reauthenticate\<close> to
  \<^verbatim>\<open>/api/iserver/reauthenticate\<close>, \<open>sso_validate\<close> to \<^verbatim>\<open>/api/sso/validate\<close>, and
  \<open>update_server_account\<close> to \<^verbatim>\<open>/api/iserver/account\<close> with the payload
  \<^verbatim>\<open>{'acctId': account_id}\<close>.
\<close>

theorem forwarding_issues_one_post:
  "is_authenticated env check self tr =
     (make_request env (session self) tr
        \<lparr> http_method = ''post'', endpoint = ''/api/iserver/auth/status'', json_payload = None \<rparr>,
      self,
      tr @ [MakeRequest
        \<lparr> http_method = ''post'', endpoint = ''/api/iserver/auth/status'', json_payload = None \<rparr>]) \<and>
   reauthenticate env self tr =
     (make_request env (session self) tr
        \<lparr> http_method = ''post'', endpoint = ''/api/iserver/reauthenticate'', json_payload = None \<rparr>,
      self,
      tr @ [MakeRequest
        \<lparr> http_method = ''post'', endpoint = ''/api/iserver/reauthenticate'', json_payload = None \<rparr>]) \<and>
   sso_validate env self tr =
     (make_request env (session self) tr
        \<lparr> http_method = ''post'', endpoint = ''/api/sso/validate'', json_payload = None \<rparr>,
      self,
      tr @ [MakeRequest
        \<lparr> http_method = ''post'', endpoint = ''/api/sso/validate'', json_payload = None \<rparr>]) \<and>
   update_server_account env account_id self tr =
     (make_request env (session self) tr
        \<lparr> http_method = ''post'', endpoint = ''/api/iserver/account'',
          json_payload = Some (JDict [(''acctId'', JStr account_id)]) \<rparr>,
      self,
      tr @ [MakeRequest
        \<lparr> http_method = ''post'', endpoint = ''/api/iserver/account'',
          json_payload = Some (JDict [(''acctId'', JStr account_id)]) \<rparr>])"
  by (simp add: is_authenticated_def reauthenticate_def sso_validate_def
      update_server_account_def session_make_request_def Let_def)

theorem forwarding_issues_one_post_witness:
  "fst (update_server_account quiet_env ''U1234567'' (init quiet_env () ()) []) =
     Inr (JDict [(''authenticated'', JBool True)]) \<and>
   requests (snd (snd (update_server_account quiet_env ''U1234567'' (init quiet_env () ()) []))) =
     [\<lparr> http_method = ''post'', endpoint = ''/api/iserver/account'',
        json_payload = Some (JDict [(''acctId'', JStr ''U1234567'')]) \<rparr>]"
  using forwarding_issues_one_post [of quiet_env False "init quiet_env () ()" "[]" "''U1234567''"]
  by (simp add: env_defs)

subsection \<open>The status check\<close>

text \<open>
  Claim C4, as stated, fails: \<^verbatim>\<open>except Exception\<close> does not catch an exception that
  is not an instance of \<^verbatim>\<open>Exception\<close>. When the session is interrupted from the
  keyboard, \<open>check_auth\<close> propagates the \<^verbatim>\<open>KeyboardInterrupt\<close>.
\<close>

theorem check_auth_propagates_KeyboardInterrupt:
  "fst (check_auth interrupted_env (init interrupted_env () ()) []) =
     Inl (BaseException ''KeyboardInterrupt'')"
  by (simp add: check_auth_def is_authenticated_def session_make_request_def
      except_Exception_return_def env_defs)

text \<open>
  Claim C4, amended. \<open>check_auth\<close> prints, makes the one status request, and swallows
  every instance of \<^verbatim>\<open>Exception\<close>: when the session raises one, or returns a value
  that is no dictionary or has no key \<^verbatim>\<open>authenticated\<close>, \<open>check_auth\<close> returns and the
  object is unchanged. Only an exception outside \<^verbatim>\<open>Exception\<close> raised by the session
  is propagated, and the object is unchanged then as well. When the field is there,
  the flag is set exactly if the field equals \<^verbatim>\<open>True\<close>.
\<close>

theorem check_auth_swallows_Exception:
  "check_auth env self tr = (res, self', tr') \<Longrightarrow>
     tr' = tr @ [Print ''Checking authentication status...'', MakeRequest status_request] \<and>
     (case make_request env (session self) (tr @ [Print ''Checking authentication status...''])
             status_request of
        Inl e \<Rightarrow> self' = self \<and> res = (if is_Exception e then Inr () else Inl e)
      | Inr response \<Rightarrow>
          res = Inr () \<and>
          (case getitem response ''authenticated'' of
             Inl e \<Rightarrow> self' = self
           | Inr v \<Rightarrow> self' = (if eq_True v then self\<lparr> authenticated := True \<rparr> else self)))"
  by (auto simp add: check_auth_def is_authenticated_def session_make_request_def
      except_Exception_return_def status_request_def getitem_def
      split: sum.splits json.splits option.splits if_splits)

theorem check_auth_swallows_Exception_witness:
  "check_auth busy_env (init busy_env () ()) [] =
     (Inr (), init busy_env () (),
      [Print ''Checking authentication status...'', MakeRequest status_request]) \<and>
   make_request busy_env () [Print ''Checking authentication status...''] status_request =
     Inl (Exception ''ConnectionError'')"
proof -
  have c: "check_auth busy_env (init busy_env () ()) [] =
     (Inr (), init busy_env () (),
      [Print ''Checking authentication status...'', MakeRequest status_request])"
    by (simp add: check_auth_def is_authenticated_def session_make_request_def
        except_Exception_return_def env_defs status_request_def)
  show ?thesis
    using check_auth_swallows_Exception [OF c] c by (simp add: env_defs)
qed

subsection \<open>The endpoints\<close>

text \<open>
  Claim C5, as stated, fails on the number of endpoints: one call of each forwarding
  operation requests four different endpoints, not two.
\<close>

theorem endpoints_requested_not_two:
  "card (endpoints_requested
     (snd (run_ops quiet_env every_forwarding_op (init quiet_env () (), [])))) \<noteq> 2"
proof -
  have "endpoints_requested
     (snd (run_ops quiet_env every_forwarding_op (init quiet_env () (), []))) =
     set gateway_endpoints"
    by (rule every_forwarding_op_endpoints)
  then show ?thesis
    by (simp add: gateway_endpoints_def)
qed

text \<open>
  Claim C5, amended. Whatever operations are run, in whatever order and environment,
  every request goes to one of the four listed endpoints
  \<^verbatim>\<open>/api/iserver/auth/status\<close>, \<^verbatim>\<open>/api/iserver/account\<close>, \<^verbatim>\<open>/api/sso/validate\<close> and
  \<^verbatim>\<open>/api/iserver/reauthenticate\<close>; and each of the four is requested by some
  operation, so the set of endpoints is exactly these four.
\<close>

theorem endpoints_requested_are_the_four:
  "endpoints_requested (snd (run_ops env ops (self, []))) \<subseteq> set gateway_endpoints \<and>
   endpoints_requested (snd (run_ops env every_forwarding_op (self, []))) = set gateway_endpoints \<and>
   distinct gateway_endpoints \<and> length gateway_endpoints = 4"
proof -
  have "endpoints_requested (snd (run_ops env ops (self, []))) \<subseteq>
     endpoints_requested (snd (self, [])) \<union> set gateway_endpoints"
    by (rule run_ops_endpoints)
  then have "endpoints_requested (snd (run_ops env ops (self, []))) \<subseteq> set gateway_endpoints"
    by (simp add: endpoints_requested_def)
  then show ?thesis
    by (simp add: every_forwarding_op_endpoints gateway_endpoints_def)
qed

theorem endpoints_requested_are_the_four_witness:
  "endpoints_requested
     (snd (run_ops busy_env [Login True, CheckAuth, CloseGateway PNone] (init busy_env () (), [])))
     \<subseteq> set gateway_endpoints \<and>
   ''/api/iserver/auth/status'' \<in> endpoints_requested
     (snd (run_ops busy_env [Login True, CheckAuth, CloseGateway PNone] (init busy_env () (), [])))"
proof -
  have "''/api/iserver/auth/status'' \<in> endpoints_requested
     (snd (run_ops busy_env [Login True, CheckAuth, CloseGateway PNone] (init busy_env () (), [])))"
    by code_simp
  then show ?thesis
    using endpoints_requested_are_the_four
      [of busy_env "[Login True, CheckAuth, CloseGateway PNone]" "init busy_env () ()"]
    by simp
qed

subsection \<open>Parsing the answer of \<^verbatim>\<open>pgrep\<close>\<close>

text \<open>
  Claim C6. On a system other than Windows \<open>is_already_running\<close> runs
  \<^verbatim>\<open>pgrep -f "Interactive Brokers Python API*"\<close>. When the decoded output is empty
  it returns \<^verbatim>\<open>is_running = False\<close> with the informational message as data and
  leaves the object unchanged. For every other decoded output the list of lines is
  not empty, it returns \<^verbatim>\<open>is_running = True\<close> with the lines as data, and it stores
  the first line as \<^verbatim>\<open>server_process_id\<close>. Where there is no decoded output, because
  running the command or decoding raised, that exception is propagated and the object
  is unchanged.
\<close>

theorem is_already_running_pgrep:
  "\<not> is_windows self \<Longrightarrow>
     pgrep_command = [''pgrep'', ''-f'', ''Interactive Brokers Python API*''] \<and>
     (run_and_decode env tr pgrep_command = Inr '''' \<longrightarrow>
        is_already_running env self tr =
          (Inr \<lparr> is_running = False, data = DStr info_message \<rparr>,
           self, tr @ [Run pgrep_command])) \<and>
     (\<forall>content. run_and_decode env tr pgrep_command = Inr content \<and> content \<noteq> '''' \<longrightarrow>
        splitlines content \<noteq> [] \<and>
        is_already_running env self tr =
          (Inr \<lparr> is_running = True, data = DLines (splitlines content) \<rparr>,
           self\<lparr> server_process_id := PStr (hd (splitlines content)) \<rparr>,
           tr @ [Run pgrep_command])) \<and>
     (\<forall>e. run_and_decode env tr pgrep_command = Inl e \<longrightarrow>
        is_already_running env self tr = (Inl e, self, tr @ [Run pgrep_command]))"
proof -
  assume w: "\<not> is_windows self"
  have n: "\<And>content. content \<noteq> '''' \<Longrightarrow> splitlines content \<noteq> []"
    by (rule splitlines_nonempty)
  show ?thesis
    using w n
    by (auto simp add: is_already_running_def Let_def info_message_def
        pgrep_command_def pgrep_pattern_def split: list.splits)
qed

theorem is_already_running_pgrep_witness:
  "\<not> is_windows (init busy_env () ()) \<and>
   is_already_running busy_env (init busy_env () ()) [] =
     (Inr \<lparr> is_running = True, data = DLines [''4711'', ''4712''] \<rparr>,
      (init busy_env () ())\<lparr> server_process_id := PStr ''4711'' \<rparr>,
      [Run [''pgrep'', ''-f'', ''Interactive Brokers Python API*'']]) \<and>
   is_already_running quiet_env (init quiet_env () ()) [] =
     (Inr \<lparr> is_running = False, data = DStr info_message \<rparr>,
      init quiet_env () (),
      [Run [''pgrep'', ''-f'', ''Interactive Brokers Python API*'']]) \<and>
   is_already_running missing_executable_env (init missing_executable_env () ()) [] =
     (Inl (Exception ''FileNotFoundError''),
      init missing_executable_env () (),
      [Run [''pgrep'', ''-f'', ''Interactive Brokers Python API*'']])"
proof -
  have w: "\<not> is_windows (init busy_env () ())" "\<not> is_windows (init quiet_env () ())"
    "\<not> is_windows (init missing_executable_env () ())"
    by (simp_all add: env_defs)
  have s: "splitlines (''4711'' @ [CHR 0x0A] @ ''4712'' @ [CHR 0x0A]) = [''4711'', ''4712'']"
    by (simp add: splitlines_def is_linebreak_def)
  have b: "run_and_decode busy_env [] pgrep_command =
      Inr (''4711'' @ [CHR 0x0A] @ ''4712'' @ [CHR 0x0A])"
    by (simp add: run_and_decode_def env_defs)
  have q: "run_and_decode quiet_env [] pgrep_command = Inr ''''"
    by (simp add: run_and_decode_def env_defs)
  have m: "run_and_decode missing_executable_env [] pgrep_command =
      Inl (Exception ''FileNotFoundError'')"
    by (simp add: run_and_decode_def env_defs)
  show ?thesis
    using is_already_running_pgrep [OF w(1), of busy_env "[]"]
      is_already_running_pgrep [OF w(2), of quiet_env "[]"]
      is_already_running_pgrep [OF w(3), of missing_executable_env "[]"] w s
    unfolding b q m
    by simp
qed

subsection \<open>The state of the object\<close>

text \<open>
  Claim C7. Every operation, whether it returns or raises, leaves \<^verbatim>\<open>client\<close>,
  \<^verbatim>\<open>session\<close> and \<^verbatim>\<open>is_windows\<close> as they were; \<^verbatim>\<open>authenticated\<close> can change only
  in \<open>check_auth\<close>, and \<^verbatim>\<open>server_process_id\<close> only in \<open>login\<close>, \<open>startup_gateway\<close> and
  \<open>is_already_running\<close>.
\<close>

theorem only_process_id_and_flag_change:
  "run_op env op (self, tr) = (self', tr') \<Longrightarrow>
     client self' = client self \<and> session self' = session self \<and>
     is_windows self' = is_windows self \<and>
     (op \<noteq> CheckAuth \<longrightarrow> authenticated self' = authenticated self) \<and>
     (\<not> assigns_process_id op \<longrightarrow> server_process_id self' = server_process_id self)"
  by (rule run_op_frame)

theorem only_process_id_and_flag_change_witness:
  "run_op quiet_env CheckAuth (init quiet_env () (), []) =
     ((init quiet_env () ())\<lparr> authenticated := True \<rparr>,
      [Print ''Checking authentication status...'', MakeRequest status_request]) \<and>
   server_process_id ((init quiet_env () ())\<lparr> authenticated := True \<rparr>) = PNone \<and>
   is_windows ((init quiet_env () ())\<lparr> authenticated := True \<rparr>) = False"
proof -
  have r: "run_op quiet_env CheckAuth (init quiet_env () (), []) =
     ((init quiet_env () ())\<lparr> authenticated := True \<rparr>,
      [Print ''Checking authentication status...'', MakeRequest status_request])"
    by (simp add: check_auth_def is_authenticated_def session_make_request_def
        except_Exception_return_def env_defs status_request_def getitem_def)
  show ?thesis
    using only_process_id_and_flag_change [OF r] r by (simp add: env_defs)
qed

text \<open>
  Claim C8. The flag \<^verbatim>\<open>authenticated\<close> is \<^verbatim>\<open>False\<close> after \<^verbatim>\<open>__init__\<close>; every
  operation other than \<open>check_auth\<close> leaves it as it is; after \<open>check_auth\<close> it is set
  exactly if it was set before or the status response holds a field
  \<^verbatim>\<open>authenticated\<close> that equals \<^verbatim>\<open>True\<close>; and once set it stays set under every
  sequence of operations.
\<close>

theorem authenticated_monotone:
  "authenticated (init env ib_client ib_session) = False \<and>
   (op \<noteq> CheckAuth \<longrightarrow> authenticated (fst (run_op env op (self, tr))) = authenticated self) \<and>
   authenticated (fst (run_op env CheckAuth (self, tr))) =
     (authenticated self \<or>
      (\<exists>response v.
         make_request env (session self) (tr @ [Print ''Checking authentication status...''])
           status_request = Inr response \<and>
         getitem response ''authenticated'' = Inr v \<and> eq_True v)) \<and>
   (authenticated (fst st) \<longrightarrow> authenticated (fst (run_ops env ops st)))"
proof -
  have i: "authenticated (init env ib_client ib_session) = False"
    by (simp add: init_def)
  have o: "op \<noteq> CheckAuth \<longrightarrow> authenticated (fst (run_op env op (self, tr))) = authenticated self"
    using run_op_frame [of env op self tr "fst (run_op env op (self, tr))"
        "snd (run_op env op (self, tr))"]
    by simp
  have c: "authenticated (fst (run_op env CheckAuth (self, tr))) =
     (authenticated self \<or>
      (\<exists>response v.
         make_request env (session self) (tr @ [Print ''Checking authentication status...''])
           status_request = Inr response \<and>
         getitem response ''authenticated'' = Inr v \<and> eq_True v))"
    by (auto simp add: check_auth_def is_authenticated_def session_make_request_def
        except_Exception_return_def status_request_def split: sum.splits if_splits)
  show ?thesis
    using i o c run_ops_monotone [of st env ops] by blast
qed

theorem authenticated_monotone_witness:
  "authenticated (fst (run_ops busy_env [CheckAuth, Login False, CloseGateway PNone]
     ((init quiet_env () ())\<lparr> authenticated := True \<rparr>, []))) \<and>
   \<not> authenticated (fst (run_op busy_env CheckAuth (init busy_env () (), []))) \<and>
   \<not> authenticated (fst (run_op busy_env (CloseGateway PNone) (init busy_env () (), [])))"
  using authenticated_monotone [of busy_env "()" "()" CheckAuth "init busy_env () ()" "[]"
      "((init quiet_env () ())\<lparr> authenticated := True \<rparr>, [])"
      "[CheckAuth, Login False, CloseGateway PNone]"]
    authenticated_monotone [of busy_env "()" "()" "CloseGateway PNone" "init busy_env () ()" "[]"
      "((init quiet_env () ())\<lparr> authenticated := True \<rparr>, [])"
      "[CheckAuth, Login False, CloseGateway PNone]"]
  by (simp add: env_defs)

text \<open>
  Claim C9. \<open>is_authenticated\<close> ignores its parameter \<^verbatim>\<open>check\<close>: in the same state
  and environment the call with \<^verbatim>\<open>True\<close> and the call with \<^verbatim>\<open>False\<close> make the
  same request and have the same outcome.
\<close>

theorem is_authenticated_ignores_check:
  "is_authenticated env True self tr = is_authenticated env False self tr"
  by (simp add: is_authenticated_def)

subsection \<open>Closing the gateway\<close>




end
